theory Spec2Isabelle
  imports Main
begin

section \<open>The seesaw\_cli binary (binaries/seesaw\_cli/main.go)\<close>

text \<open>
  The binary is a thin driver around four collaborators it does not define: the command
  registry of package cli (FindCommand, Execute), the engine connection of package conn,
  the terminal library (MakeRaw, Restore, NewTerminal, ReadLine, Write) and the Go standard
  library (strings.Join, strings.TrimSpace, fmt, os). The functions of main.go are embedded
  one by one; the collaborators appear as an environment of answers, and everything the
  binary does to the outside world is appended to a trace of effects.

  Go strings are byte strings: \<open>string\<close> (a list of bytes) here, so that
  \<open>len(line)\<close> is \<open>length line\<close> and \<open>line[0:pos]\<close> is \<open>take pos line\<close>.
\<close>

subsection \<open>Data\<close>

text \<open>cli.Command: main.go reads only its field Command. The chain returned by
  FindCommand holds pointers to registry entries, which are never nil.\<close>

record command =
  Command :: string

text \<open>The four results of cli.FindCommand: the matched command (or nil), the candidate
  sub-commands (a pointer to a slice, or nil), the resolved chain and the remaining
  arguments.\<close>

type_synonym resolution = "command option \<times> command list option \<times> command list \<times> string list"

text \<open>What a call of SeesawCLI.Execute does, as far as main.go can observe: it returns nil,
  it returns an error, or it invokes the exit callback handed to cli.NewSeesawCLI.\<close>

datatype exec_result = ExecOk | ExecError string | ExecExit

record cluster_status =
  Version :: int
  Site :: string

record user =
  Username :: string

text \<open>seesaw.HAState: main.go only compares the state with seesaw.HAMaster.\<close>

datatype HAState = HAMaster | HANotMaster

record ha_status =
  State :: HAState

text \<open>The environment: the answers of the collaborators. An error is its message.
  The type \<open>'c\<close> is the configuration of the terminal device (terminal.State wraps one);
  \<open>MakeRaw\<close> maps the current configuration to the raw one, or fails.\<close>

record 'c env =
  NewSeesawIPC :: "string option"
  Dial :: "string option"
  ClusterStatus :: "string + cluster_status"
  CurrentUser :: "string + user"
  HAStatus :: "string + ha_status"
  MakeRaw :: "'c \<Rightarrow> string + 'c"
  FindCommand :: "string \<Rightarrow> resolution"
  Execute :: "string \<Rightarrow> exec_result"

text \<open>Everything observable the process does, in the order it does it.\<close>

datatype effect =
    Stdout string
  | Stderr string
  | TermWrite string
  | NotifyCall
  | GoSignalWaiter
  | MakeRawCall
  | NewTerminalCall string
  | RestoreCall
  | GoResume
  | KillSIGTSTP
  | ReadLineCall
  | ExecuteCall string
  | ConnClose
  | Panic
  | OsExit nat

text \<open>The process state: the configuration of the terminal device behind stdin, the
  package-level variables oldTermState, prompt and term of main.go (term is nil or a
  Terminal bound to a prompt), the number of resume goroutines started and not yet run,
  the trace, and the exit status once the process has ended.\<close>

record 'c state =
  tty :: 'c
  oldTermState :: "'c option"
  prompt :: string
  terminal :: "string option"
  resumes :: nat
  trace :: "effect list"
  status :: "nat option"

definition init :: "'c \<Rightarrow> 'c state" where
  "init c = \<lparr>tty = c, oldTermState = None, prompt = [], terminal = None,
              resumes = 0, trace = [], status = None\<rparr>"

definition emit :: "effect \<Rightarrow> 'c state \<Rightarrow> 'c state" where
  "emit e s = s\<lparr>trace := trace s @ [e]\<rparr>"

subsection \<open>Standard library: strings.Join, fmt's \%d\<close>

fun Join :: "string list \<Rightarrow> string \<Rightarrow> string" where
  "Join [] sep = []"
| "Join [x] sep = x"
| "Join (x # y # ys) sep = x @ sep @ Join (y # ys) sep"

definition digit :: "nat \<Rightarrow> char" where
  "digit d = char_of (48 + d)"

function showNat :: "nat \<Rightarrow> string" where
  "showNat n = (if n < 10 then [digit n] else showNat (n div 10) @ [digit (n mod 10)])"
  by pat_completeness auto
termination
  by (relation "measure id") auto

declare showNat.simps [simp del]

definition showInt :: "int \<Rightarrow> string" where
  "showInt i = (if i < 0 then CHR ''-'' # showNat (nat (- i)) else showNat (nat i))"

subsection \<open>exit, fatalf, suspend, resume, terminalInit\<close>

text \<open>terminal.Restore writes the saved configuration back to the device; its error is
  ignored by main.go. os.Exit ends the process: \<open>status\<close> becomes the exit status.\<close>

definition exit :: "'c state \<Rightarrow> 'c state" where
  "exit s =
     (let s1 = (case oldTermState s of
                  Some c \<Rightarrow> emit RestoreCall (s\<lparr>tty := c\<rparr>)
                | None \<Rightarrow> s);
          s2 = emit (Stdout ''\<newline>'') s1
      in (emit (OsExit 0) s2)\<lparr>status := Some 0\<rparr>)"

text \<open>\<open>fatalf msg\<close>: the argument is the message already formatted by fmt.\<close>

definition fatalf :: "string \<Rightarrow> 'c state \<Rightarrow> 'c state" where
  "fatalf msg s =
     (let s1 = (case oldTermState s of
                  Some c \<Rightarrow> emit RestoreCall (s\<lparr>tty := c\<rparr>)
                | None \<Rightarrow> s);
          s2 = emit (Stderr msg) s1;
          s3 = emit (Stderr ''\<newline>'') s2
      in (emit (OsExit 1) s3)\<lparr>status := Some 1\<rparr>)"

text \<open>\<open>go resume()\<close> starts a goroutine that sleeps for a second; it is counted in
  \<open>resumes\<close> until it wakes.\<close>

definition suspend :: "'c state \<Rightarrow> 'c state" where
  "suspend s =
     (let s1 = (case oldTermState s of
                  Some c \<Rightarrow> emit RestoreCall (s\<lparr>tty := c\<rparr>)
                | None \<Rightarrow> s);
          s2 = (emit GoResume s1)\<lparr>resumes := Suc (resumes s1)\<rparr>
      in emit KillSIGTSTP s2)"

text \<open>terminal.MakeRaw returns the configuration it found and switches the device to the
  raw one; on failure it returns nil and the error, and the assignment of main.go stores
  that nil in oldTermState before fatalf runs.\<close>

definition terminalInit :: "'c env \<Rightarrow> 'c state \<Rightarrow> 'c state" where
  "terminalInit env s =
     (let s1 = emit MakeRawCall s in
      case MakeRaw env (tty s1) of
        Inl err \<Rightarrow> fatalf (''Failed to get raw terminal: '' @ err) (s1\<lparr>oldTermState := None\<rparr>)
      | Inr raw \<Rightarrow>
          emit (NewTerminalCall (prompt s1))
            (s1\<lparr>oldTermState := Some (tty s1), tty := raw, terminal := Some (prompt s1)\<rparr>))"

text \<open>The body of resume after its sleep.\<close>

definition resume :: "'c env \<Rightarrow> 'c state \<Rightarrow> 'c state" where
  "resume env s = terminalInit env (emit (Stdout ''resuming...\<newline>'') s)"

subsection \<open>commandChain\<close>

text \<open>The loop over the chain, appending each command's name to the slice.\<close>

fun appendCommands :: "string list \<Rightarrow> command list \<Rightarrow> string list" where
  "appendCommands s [] = s"
| "appendCommands s (c # cs) = appendCommands (s @ [Command c]) cs"

definition commandChain :: "command list \<Rightarrow> string list \<Rightarrow> string" where
  "commandChain chain args =
     (let s = appendCommands [] chain;
          s = s @ args;
          s = (if length s > 0 \<and> length args = 0 then s @ [[]] else s)
      in Join s '' '')"

subsection \<open>Standard library: strings.TrimSpace\<close>

text \<open>strings.TrimSpace removes the leading and the trailing runes that unicode.IsSpace
  accepts. On the bytes of the string these are the UTF-8 encodings below (U+0009 to
  U+000D, U+0020, U+0085, U+00A0, U+1680, U+2000 to U+200A, U+2028, U+2029, U+202F, U+205F,
  U+3000); a byte sequence that is not valid UTF-8 decodes to the error rune, which is not
  a space.\<close>

definition spaceRunes :: "string list" where
  "spaceRunes =
     [[CHR 0x09], [CHR 0x0A], [CHR 0x0B], [CHR 0x0C], [CHR 0x0D], [CHR 0x20],
      [CHR 0xC2, CHR 0x85], [CHR 0xC2, CHR 0xA0], [CHR 0xE1, CHR 0x9A, CHR 0x80],
      [CHR 0xE2, CHR 0x80, CHR 0x80], [CHR 0xE2, CHR 0x80, CHR 0x81],
      [CHR 0xE2, CHR 0x80, CHR 0x82], [CHR 0xE2, CHR 0x80, CHR 0x83],
      [CHR 0xE2, CHR 0x80, CHR 0x84], [CHR 0xE2, CHR 0x80, CHR 0x85],
      [CHR 0xE2, CHR 0x80, CHR 0x86], [CHR 0xE2, CHR 0x80, CHR 0x87],
      [CHR 0xE2, CHR 0x80, CHR 0x88], [CHR 0xE2, CHR 0x80, CHR 0x89],
      [CHR 0xE2, CHR 0x80, CHR 0x8A], [CHR 0xE2, CHR 0x80, CHR 0xA8],
      [CHR 0xE2, CHR 0x80, CHR 0xA9], [CHR 0xE2, CHR 0x80, CHR 0xAF],
      [CHR 0xE2, CHR 0x81, CHR 0x9F], [CHR 0xE3, CHR 0x80, CHR 0x80]]"

text \<open>The number of bytes of the space rune the string starts with (ends with), or 0.\<close>

definition leadingSpace :: "string \<Rightarrow> nat" where
  "leadingSpace s =
     (case filter (\<lambda>w. take (length w) s = w) spaceRunes of
        [] \<Rightarrow> 0
      | w # _ \<Rightarrow> length w)"

definition trailingSpace :: "string \<Rightarrow> nat" where
  "trailingSpace s =
     (case filter (\<lambda>w. length w \<le> length s \<and> drop (length s - length w) s = w) spaceRunes of
        [] \<Rightarrow> 0
      | w # _ \<Rightarrow> length w)"

lemma leadingSpace_le: "leadingSpace s \<le> length s"
proof (cases "filter (\<lambda>w. take (length w) s = w) spaceRunes")
  case Nil
  then show ?thesis by (simp add: leadingSpace_def)
next
  case (Cons w ws)
  then have "w \<in> set (filter (\<lambda>w. take (length w) s = w) spaceRunes)" by simp
  then have "take (length w) s = w" by simp
  then have "length (take (length w) s) = length w"
    by (rule arg_cong)
  then have "length w \<le> length s" by simp
  with Cons show ?thesis by (simp add: leadingSpace_def)
qed

lemma trailingSpace_le: "trailingSpace s \<le> length s"
proof (cases "filter (\<lambda>w. length w \<le> length s \<and> drop (length s - length w) s = w) spaceRunes")
  case Nil
  then show ?thesis by (simp add: trailingSpace_def)
next
  case (Cons w ws)
  then have "w \<in> set (filter (\<lambda>w. length w \<le> length s \<and> drop (length s - length w) s = w) spaceRunes)"
    by simp
  then have "length w \<le> length s" by simp
  with Cons show ?thesis by (simp add: trailingSpace_def)
qed

function TrimLeft :: "string \<Rightarrow> string" where
  "TrimLeft s = (if leadingSpace s = 0 then s else TrimLeft (drop (leadingSpace s) s))"
  by pat_completeness auto
termination
proof (relation "measure length")
  show "wf (measure length)" by simp
next
  fix s :: string
  assume "leadingSpace s \<noteq> 0"
  moreover have "leadingSpace s \<le> length s" by (rule leadingSpace_le)
  ultimately show "(drop (leadingSpace s) s, s) \<in> measure length" by simp
qed

function TrimRight :: "string \<Rightarrow> string" where
  "TrimRight s = (if trailingSpace s = 0 then s else TrimRight (take (length s - trailingSpace s) s))"
  by pat_completeness auto
termination
proof (relation "measure length")
  show "wf (measure length)" by simp
next
  fix s :: string
  assume "trailingSpace s \<noteq> 0"
  moreover have "trailingSpace s \<le> length s" by (rule trailingSpace_le)
  ultimately show "(take (length s - trailingSpace s) s, s) \<in> measure length" by simp
qed

declare TrimLeft.simps [simp del] TrimRight.simps [simp del]

definition TrimSpace :: "string \<Rightarrow> string" where
  "TrimSpace s = TrimRight (TrimLeft s)"

subsection \<open>autoComplete\<close>

text \<open>term.Write on the line editor.\<close>

definition termWrite :: "string \<Rightarrow> 'c state \<Rightarrow> 'c state" where
  "termWrite b s = emit (TermWrite b) s"

text \<open>A run-time panic (a slice bound out of range) ends the process with status 2, with
  no deferred call of main.go in the way.\<close>

definition panic :: "'c state \<Rightarrow> 'c state" where
  "panic s = (emit Panic s)\<lparr>status := Some 2\<rparr>"

text \<open>The loop over the candidate sub-commands of the help key.\<close>

fun writeSubcmds :: "command list \<Rightarrow> 'c state \<Rightarrow> 'c state" where
  "writeSubcmds [] s = s"
| "writeSubcmds (c # cs) s =
     writeSubcmds cs (termWrite ''\<newline>'' (termWrite ('' '' @ Command c) s))"

text \<open>The result is the triple the callback returns, or None when the call does not return
  (exit, or a panic). The key is the rune typed; exit never returns, and after suspend the
  switch is left and the final return statement runs.\<close>

definition autoComplete ::
  "'c env \<Rightarrow> string \<Rightarrow> int \<Rightarrow> int \<Rightarrow> 'c state \<Rightarrow> (string \<times> int \<times> bool) option \<times> 'c state" where
  "autoComplete env line pos key s =
     (if key = 0x01 then (Some (line, 0, True), s)
      else if key = 0x03 then (None, exit s)
      else if key = 0x05 then (Some (line, int (length line), True), s)
      else if key = 0x09 then
        (case FindCommand env line of
           (_, _, chain, args) \<Rightarrow>
             (let l = commandChain chain args in (Some (l, int (length l), True), s)))
      else if key = 0x15 then (Some ([], 0, True), s)
      else if key = 0x1a then (Some ([], 0, False), suspend s)
      else if key = 0x3f then
        (if pos < 0 \<or> int (length line) < pos then (None, panic s)
         else
           (case FindCommand env (take (nat pos) line) of
              (cmd, subcmds, chain, args) \<Rightarrow>
                (let s1 = (if cmd = None
                           then termWrite ''?\<newline>'' (termWrite line (termWrite (prompt s) s))
                           else s);
                     s2 = (case subcmds of
                             Some cs \<Rightarrow> writeSubcmds cs s1
                           | None \<Rightarrow>
                               if cmd = None then termWrite ''Unknown command.\<newline>'' s1 else s1);
                     l = commandChain chain args
                 in (Some (l, int (length l), True), s2))))
      else (Some ([], 0, False), s))"

subsection \<open>interactive and main\<close>

text \<open>What reaches the process once the line editor is running: a key for which the
  editor calls autoComplete (with the line and the cursor it holds), a line or an error
  returned by ReadLine, one of the three signals main.go asks to be notified of, or the
  end of the sleep of a resume goroutine.\<close>

datatype signal = SIGINT | SIGQUIT | SIGTERM

datatype input = Key string int int | Line string | EOF | Signal signal | Wake

text \<open>The for loop of interactive, one ReadLine call being in progress. The flag says
  whether interactive returned (the break); without it the process has ended, or is
  still waiting for input.\<close>

fun readLoop :: "'c env \<Rightarrow> input list \<Rightarrow> 'c state \<Rightarrow> bool \<times> 'c state" where
  "readLoop env [] s = (False, s)"
| "readLoop env (i # ins) s =
     (if status s \<noteq> None then (False, s)
      else case i of
        Key line pos key \<Rightarrow> readLoop env ins (snd (autoComplete env line pos key s))
      | Line l \<Rightarrow>
          (let cmdline = TrimSpace l in
           if cmdline = [] then readLoop env ins (emit ReadLineCall s)
           else
             (case Execute env cmdline of
                ExecOk \<Rightarrow> readLoop env ins (emit ReadLineCall (emit (ExecuteCall cmdline) s))
              | ExecError e \<Rightarrow>
                  readLoop env ins
                    (emit ReadLineCall
                      (emit (Stdout (e @ ''\<newline>'')) (emit (ExecuteCall cmdline) s)))
              | ExecExit \<Rightarrow> (False, exit (emit (ExecuteCall cmdline) s))))
      | EOF \<Rightarrow> (True, s)
      | Signal sg \<Rightarrow> (False, exit s)
      | Wake \<Rightarrow>
          (if resumes s = 0 then readLoop env ins s
           else readLoop env ins (resume env (s\<lparr>resumes := resumes s - 1\<rparr>))))"

definition interactive :: "'c env \<Rightarrow> input list \<Rightarrow> 'c state \<Rightarrow> bool \<times> 'c state" where
  "interactive env ins s =
     (case ClusterStatus env of
        Inl err \<Rightarrow> (False, fatalf (''Failed to get cluster status: '' @ err) s)
      | Inr st \<Rightarrow>
          (let s1 = emit (Stdout (''\<newline>Seesaw CLI - Engine version '' @ showInt (Version st)
                                   @ ''\<newline>\<newline>'')) s in
           case CurrentUser env of
             Inl err \<Rightarrow> (False, fatalf (''Failed to get current user: '' @ err) s1)
           | Inr u \<Rightarrow>
               (case HAStatus env of
                  Inl err \<Rightarrow> (False, fatalf (''Failed to get HA status: '' @ err) s1)
                | Inr ha \<Rightarrow>
                    (let s2 = (if State ha \<noteq> HAMaster
                               then emit (Stdout ''WARNING: This seesaw is not currently the master.\<newline>'') s1
                               else s1);
                         s3 = s2\<lparr>prompt := Username u @ ''@'' @ Site st @ ''> ''\<rparr>;
                         s4 = emit GoSignalWaiter (emit NotifyCall s3);
                         s5 = terminalInit env s4
                     in if status s5 \<noteq> None then (False, s5)
                        else readLoop env ins (emit ReadLineCall s5)))))"

text \<open>main: \<open>command\<close> is the value of the flag -c. A normal return of main runs the
  deferred Close and ends the process with status 0; os.Exit runs no deferred call.\<close>

definition main :: "'c env \<Rightarrow> string \<Rightarrow> input list \<Rightarrow> 'c state \<Rightarrow> 'c state" where
  "main env command ins s =
     (case NewSeesawIPC env of
        Some err \<Rightarrow> fatalf (''Failed to connect to engine: '' @ err) s
      | None \<Rightarrow>
          (case Dial env of
             Some err \<Rightarrow> fatalf (''Failed to connect to engine: '' @ err) s
           | None \<Rightarrow>
               if command = [] then
                 (case interactive env ins s of
                    (True, s') \<Rightarrow> exit s'
                  | (False, s') \<Rightarrow> s')
               else
                 (case Execute env command of
                    ExecError e \<Rightarrow> fatalf e (emit (ExecuteCall command) s)
                  | ExecExit \<Rightarrow> exit (emit (ExecuteCall command) s)
                  | ExecOk \<Rightarrow>
                      (emit (OsExit 0) (emit ConnClose (emit (ExecuteCall command) s)))
                        \<lparr>status := Some 0\<rparr>)))"

text \<open>Projections of the trace.\<close>

fun executed :: "effect list \<Rightarrow> string list" where
  "executed [] = []"
| "executed (ExecuteCall l # es) = l # executed es"
| "executed (_ # es) = executed es"


fun stdout :: "effect list \<Rightarrow> string list" where
  "stdout [] = []"
| "stdout (Stdout b # es) = b # stdout es"
| "stdout (_ # es) = stdout es"

subsection \<open>Orderly runs\<close>

text \<open>A run is orderly when the suspend key is never handled while a resume goroutine
  started by an earlier suspend is still asleep, and the cursor the line editor hands to
  the help key lies within the line. The first argument counts the sleeping goroutines.\<close>

fun orderly :: "nat \<Rightarrow> input list \<Rightarrow> bool" where
  "orderly n [] = True"
| "orderly n (Key line pos key # ins) =
     (if key = 0x1a then n = 0 \<and> orderly 1 ins
      else (key = 0x3f \<longrightarrow> 0 \<le> pos \<and> pos \<le> int (length line)) \<and> orderly n ins)"
| "orderly n (Wake # ins) = orderly (n - 1) ins"
| "orderly n (i # ins) = orderly n ins"

subsection \<open>A small environment for concrete runs\<close>

text \<open>A terminal with two configurations, a registry stub knowing the commands show (with
  the sub-commands sessions and status) and shutdown, and an engine that answers. Used only to evaluate the functions above at
  concrete inputs.\<close>

datatype tty_mode = Cooked | Raw

definition demoFind :: "string \<Rightarrow> resolution" where
  "demoFind s =
     (if s = ''show'' then (Some \<lparr>Command = ''show''\<rparr>, None, [\<lparr>Command = ''show''\<rparr>], [])
      else if s = ''show eth0''
        then (Some \<lparr>Command = ''show''\<rparr>, None, [\<lparr>Command = ''show''\<rparr>], [''eth0''])
      else if s = ''sh''
        then (None, Some [\<lparr>Command = ''show''\<rparr>, \<lparr>Command = ''shutdown''\<rparr>], [], [''sh''])
      else if s = ''sho s''
        then (None, Some [\<lparr>Command = ''sessions''\<rparr>, \<lparr>Command = ''status''\<rparr>],
              [\<lparr>Command = ''show''\<rparr>], [''s''])
      else (None, None, [], [s]))"

definition demoExecute :: "string \<Rightarrow> exec_result" where
  "demoExecute l =
     (if l = ''quit'' then ExecExit
      else if l = ''show'' then ExecOk
      else ExecError ''Unknown command'')"

definition demoMakeRaw :: "tty_mode \<Rightarrow> string + tty_mode" where
  "demoMakeRaw c = Inr Raw"

definition failMakeRaw :: "tty_mode \<Rightarrow> string + tty_mode" where
  "failMakeRaw c = Inl ''inappropriate ioctl for device''"

definition demoEnv :: "tty_mode env" where
  "demoEnv =
     \<lparr>NewSeesawIPC = None, Dial = None,
      ClusterStatus = Inr \<lparr>Version = 2, Site = ''lab''\<rparr>,
      CurrentUser = Inr \<lparr>Username = ''op''\<rparr>,
      HAStatus = Inr \<lparr>State = HAMaster\<rparr>,
      MakeRaw = demoMakeRaw, FindCommand = demoFind, Execute = demoExecute\<rparr>"

definition noTtyEnv :: "tty_mode env" where
  "noTtyEnv = demoEnv\<lparr>MakeRaw := failMakeRaw\<rparr>"

section \<open>Properties\<close>

subsection \<open>commandChain\<close>

lemma appendCommands_map: "appendCommands s chain = s @ map Command chain"
  by (induction chain arbitrary: s) simp_all

lemma Join_snoc_empty: "xs \<noteq> [] \<Longrightarrow> Join (xs @ [[]]) sep = Join xs sep @ sep"
  by (induction xs sep rule: Join.induct) simp_all

lemma commandChain_eq:
  "commandChain chain args =
     (if chain \<noteq> [] \<and> args = [] then Join (map Command chain) '' '' @ '' ''
      else Join (map Command chain @ args) '' '')"
  by (simp add: commandChain_def appendCommands_map Join_snoc_empty Let_def)

text \<open>
  Claim C2, as the code has it. commandChain joins the names of the chain followed by the
  free-form arguments with single spaces. When there are no arguments and the chain is not
  empty, the result is the joined chain followed by one space (the empty token appended
  by the code). When chain and arguments are both empty the guard \<open>len(s) > 0\<close> appends
  nothing and the result is the empty string. The two examples of the specification hold.
\<close>

theorem commandChain_join:
  "commandChain chain args =
     (if chain \<noteq> [] \<and> args = [] then Join (map Command chain) '' '' @ '' ''
      else Join (map Command chain @ args) '' '')
   \<and> commandChain [\<lparr>Command = ''show''\<rparr>, \<lparr>Command = ''status''\<rparr>] [] = ''show status ''
   \<and> commandChain [\<lparr>Command = ''show''\<rparr>] [''eth0''] = ''show eth0''"
  by (simp add: commandChain_eq)

text \<open>
  Claim C2 as stated fails for the empty chain: with no command and no argument the
  result is empty, so it does not end with a space.
\<close>

theorem commandChain_empty_counterexample:
  "\<not> (commandChain [] [] \<noteq> [] \<and> last (commandChain [] []) = CHR '' '')"
  by (simp add: commandChain_eq)

subsection \<open>autoComplete\<close>

text \<open>The expand key (Tab) hands the whole line to FindCommand; the cursor position is
  not read. It writes nothing.\<close>

lemma autoComplete_tab:
  "autoComplete env line pos 0x09 s =
     (case FindCommand env line of
        (cmd, subcmds, chain, args) \<Rightarrow>
          (Some (commandChain chain args, int (length (commandChain chain args)), True), s))"
  by (simp add: autoComplete_def Let_def split: prod.splits)

lemma writeSubcmds_trace:
  "writeSubcmds cs s =
     s\<lparr>trace := trace s @ concat (map (\<lambda>c. [TermWrite ('' '' @ Command c), TermWrite ''\<newline>'']) cs)\<rparr>"
  by (induction cs arbitrary: s) (simp_all add: termWrite_def emit_def)

text \<open>
  Claim C3 at the line \<open>show eth0\<close> with the cursor after \<open>show\<close>: the expand key
  resolves the whole line and returns \<open>show eth0\<close> with the cursor at 9, where resolving
  the text left of the cursor (as the help key does) gives the chain-join \<open>show \<close>.
\<close>

theorem autoComplete_tab_whole_line:
  "autoComplete demoEnv ''show eth0'' 4 0x09 (init Cooked)
     = (Some (''show eth0'', 9, True), init Cooked)
   \<and> (case FindCommand demoEnv (take 4 ''show eth0'') of
        (cmd, subcmds, chain, args) \<Rightarrow> commandChain chain args) = ''show ''"
  by (simp add: autoComplete_tab demoEnv_def demoFind_def commandChain_eq)






subsection \<open>exit, fatalf, suspend, terminalInit in closed form\<close>


lemma exit_eq:
  "exit s =
     s\<lparr>tty := (case oldTermState s of Some c \<Rightarrow> c | None \<Rightarrow> tty s),
       trace := trace s @ (case oldTermState s of Some c \<Rightarrow> [RestoreCall] | None \<Rightarrow> [])
                  @ [Stdout ''\<newline>'', OsExit 0],
       status := Some 0\<rparr>"
  by (simp add: exit_def emit_def Let_def split: option.splits)

lemma fatalf_eq:
  "fatalf msg s =
     s\<lparr>tty := (case oldTermState s of Some c \<Rightarrow> c | None \<Rightarrow> tty s),
       trace := trace s @ (case oldTermState s of Some c \<Rightarrow> [RestoreCall] | None \<Rightarrow> [])
                  @ [Stderr msg, Stderr ''\<newline>'', OsExit 1],
       status := Some 1\<rparr>"
  by (simp add: fatalf_def emit_def Let_def split: option.splits)

lemma suspend_eq:
  "suspend s =
     s\<lparr>tty := (case oldTermState s of Some c \<Rightarrow> c | None \<Rightarrow> tty s),
       resumes := Suc (resumes s),
       trace := trace s @ (case oldTermState s of Some c \<Rightarrow> [RestoreCall] | None \<Rightarrow> [])
                  @ [GoResume, KillSIGTSTP]\<rparr>"
  by (simp add: suspend_def emit_def Let_def split: option.splits)

lemma terminalInit_eq:
  "terminalInit env s =
     (case MakeRaw env (tty s) of
        Inl err \<Rightarrow>
          s\<lparr>oldTermState := None,
            trace := trace s @ [MakeRawCall, Stderr (''Failed to get raw terminal: '' @ err),
                                Stderr ''\<newline>'', OsExit 1],
            status := Some 1\<rparr>
      | Inr raw \<Rightarrow>
          s\<lparr>tty := raw, oldTermState := Some (tty s), terminal := Some (prompt s),
            trace := trace s @ [MakeRawCall, NewTerminalCall (prompt s)]\<rparr>)"
  by (simp add: terminalInit_def fatalf_eq emit_def Let_def split: sum.splits)

text \<open>
  Claim C10. exit, fatalf and suspend call terminal.Restore exactly when oldTermState is
  not nil. With oldTermState nil each of them leaves the terminal configuration alone and
  its effects are only the ones that follow the guard (the newline and os.Exit(0); the
  message, the newline and os.Exit(1); the start of resume and the stop signal). With a
  saved configuration each of them first writes that configuration back.
\<close>

theorem restore_only_when_saved:
  "(oldTermState s = None \<longrightarrow>
      exit s = s\<lparr>trace := trace s @ [Stdout ''\<newline>'', OsExit 0], status := Some 0\<rparr>
    \<and> fatalf msg s = s\<lparr>trace := trace s @ [Stderr msg, Stderr ''\<newline>'', OsExit 1], status := Some 1\<rparr>
    \<and> suspend s = s\<lparr>resumes := Suc (resumes s), trace := trace s @ [GoResume, KillSIGTSTP]\<rparr>)
   \<and> (oldTermState s = Some c \<longrightarrow>
      exit s = s\<lparr>tty := c, trace := trace s @ [RestoreCall, Stdout ''\<newline>'', OsExit 0],
                 status := Some 0\<rparr>
    \<and> fatalf msg s = s\<lparr>tty := c, trace := trace s @ [RestoreCall, Stderr msg, Stderr ''\<newline>'', OsExit 1],
                       status := Some 1\<rparr>
    \<and> suspend s = s\<lparr>tty := c, resumes := Suc (resumes s),
                    trace := trace s @ [RestoreCall, GoResume, KillSIGTSTP]\<rparr>)"
  by (simp add: exit_eq fatalf_eq suspend_eq)

theorem restore_only_when_saved_witness:
  "oldTermState (init Raw) = None
   \<and> tty (exit (init Raw)) = Raw \<and> RestoreCall \<notin> set (trace (exit (init Raw)))
   \<and> tty (fatalf ''x'' (init Raw)) = Raw \<and> RestoreCall \<notin> set (trace (fatalf ''x'' (init Raw)))
   \<and> tty (suspend (init Raw)) = Raw \<and> RestoreCall \<notin> set (trace (suspend (init Raw)))
   \<and> oldTermState ((init Raw)\<lparr>oldTermState := Some Cooked\<rparr>) = Some Cooked
   \<and> tty (exit ((init Raw)\<lparr>oldTermState := Some Cooked\<rparr>)) = Cooked
   \<and> tty (fatalf ''x'' ((init Raw)\<lparr>oldTermState := Some Cooked\<rparr>)) = Cooked
   \<and> tty (suspend ((init Raw)\<lparr>oldTermState := Some Cooked\<rparr>)) = Cooked"
  using restore_only_when_saved [of "init Raw" "''x''" Cooked]
        restore_only_when_saved [of "(init Raw)\<lparr>oldTermState := Some Cooked\<rparr>" "''x''" Cooked]
  by (simp add: init_def)

subsection \<open>Traces only grow\<close>







subsection \<open>strings.TrimSpace\<close>








lemma TrimLeft_suffix: "\<exists>a. s = a @ TrimLeft s"
proof (induction s rule: TrimLeft.induct)
  case (1 s)
  show ?case
  proof (cases "leadingSpace s = 0")
    case True
    then show ?thesis by (subst TrimLeft.simps) simp
  next
    case False
    then obtain a where "drop (leadingSpace s) s = a @ TrimLeft (drop (leadingSpace s) s)"
      using "1.IH" by blast
    then have "s = (take (leadingSpace s) s @ a) @ TrimLeft (drop (leadingSpace s) s)"
      by (metis append.assoc append_take_drop_id)
    moreover have "TrimLeft s = TrimLeft (drop (leadingSpace s) s)"
      using False by (subst TrimLeft.simps) simp
    ultimately show ?thesis by metis
  qed
qed

lemma TrimRight_prefix: "\<exists>b. s = TrimRight s @ b"
proof (induction s rule: TrimRight.induct)
  case (1 s)
  show ?case
  proof (cases "trailingSpace s = 0")
    case True
    then show ?thesis by (subst TrimRight.simps) simp
  next
    case False
    then obtain b where "take (length s - trailingSpace s) s
                           = TrimRight (take (length s - trailingSpace s) s) @ b"
      using "1.IH" by blast
    then have "s = TrimRight (take (length s - trailingSpace s) s)
                     @ (b @ drop (length s - trailingSpace s) s)"
      by (metis append.assoc append_take_drop_id)
    moreover have "TrimRight s = TrimRight (take (length s - trailingSpace s) s)"
      using False by (subst TrimRight.simps) simp
    ultimately show ?thesis by metis
  qed
qed

text \<open>The trimmed line is a piece of the line read.\<close>

lemma TrimSpace_infix: "\<exists>a b. s = a @ TrimSpace s @ b"
proof -
  obtain a where a: "s = a @ TrimLeft s" using TrimLeft_suffix by blast
  obtain b where b: "TrimLeft s = TrimRight (TrimLeft s) @ b" using TrimRight_prefix by blast
  have "s = a @ TrimRight (TrimLeft s) @ b" using a b by metis
  then show ?thesis by (auto simp add: TrimSpace_def)
qed


lemma showInt_2: "showInt 2 = ''2''"
  by code_simp

subsection \<open>The read loop\<close>




subsection \<open>main\<close>


text \<open>
  Claim C7. With a connection to the engine and a non-empty command given with -c, main
  calls Execute once, with that command, and never reaches interactive: no ReadLine call
  is made and the result does not depend on what the terminal would deliver. When Execute
  returns an error, the error and a newline are written to the error stream and the exit
  status is 1; otherwise the exit status is 0 (after the deferred Close when Execute
  returns nil, or through the exit callback).
\<close>

theorem one_shot:
  assumes "NewSeesawIPC env = None" and "Dial env = None" and "command \<noteq> []"
  shows "main env command ins (init c) =
           (init c)\<lparr>trace := ExecuteCall command #
                        (case Execute env command of
                           ExecOk \<Rightarrow> [ConnClose, OsExit 0]
                         | ExecError e \<Rightarrow> [Stderr e, Stderr ''\<newline>'', OsExit 1]
                         | ExecExit \<Rightarrow> [Stdout ''\<newline>'', OsExit 0]),
                    status := Some (case Execute env command of ExecError e \<Rightarrow> 1 | _ \<Rightarrow> 0)\<rparr>
         \<and> executed (trace (main env command ins (init c))) = [command]
         \<and> ReadLineCall \<notin> set (trace (main env command ins (init c)))"
  using assms
  by (simp add: main_def fatalf_eq exit_eq emit_def init_def split: exec_result.splits)

theorem one_shot_witness:
  "status (main demoEnv ''show'' [Line ''quit''] (init Cooked)) = Some 0
   \<and> status (main demoEnv ''bogus'' [Line ''quit''] (init Cooked)) = Some 1
   \<and> trace (main demoEnv ''bogus'' [Line ''quit''] (init Cooked))
       = [ExecuteCall ''bogus'', Stderr ''Unknown command'', Stderr ''\<newline>'', OsExit 1]"
proof -
  have a: "NewSeesawIPC demoEnv = None" "Dial demoEnv = None" by (simp_all add: demoEnv_def)
  have b: "''show'' \<noteq> []" "''bogus'' \<noteq> []" by simp_all
  have e: "Execute demoEnv ''show'' = ExecOk" "Execute demoEnv ''bogus'' = ExecError ''Unknown command''"
    by (simp_all add: demoEnv_def demoExecute_def)
  show ?thesis
    using one_shot [OF a b(1), of "[Line ''quit'']" Cooked]
          one_shot [OF a b(2), of "[Line ''quit'']" Cooked] e
    by (simp add: init_def)
qed





text \<open>
  Claim C9, as the code has it. When the engine answers and terminal.MakeRaw fails at the
  start of the session, the version banner (and the warning, when the engine is not the
  master) has already been written to standard output; after that the process installs
  the signal handler, fails to enter raw mode, writes the diagnostic and a newline to the
  error stream and ends with status 1. No line editor is created, nothing is written to
  the terminal, no configuration was saved, so nothing is restored, and the terminal keeps
  the configuration it had.
\<close>

theorem raw_mode_failure:
  assumes "NewSeesawIPC env = None" and "Dial env = None"
    and "ClusterStatus env = Inr st" and "CurrentUser env = Inr u" and "HAStatus env = Inr ha"
    and "MakeRaw env c = Inl err"
  shows "main env [] ins (init c) =
           \<lparr>tty = c, oldTermState = None, prompt = Username u @ ''@'' @ Site st @ ''> '',
            terminal = None, resumes = 0,
            trace = [Stdout (''\<newline>Seesaw CLI - Engine version '' @ showInt (Version st) @ ''\<newline>\<newline>'')]
                    @ (if State ha \<noteq> HAMaster
                       then [Stdout ''WARNING: This seesaw is not currently the master.\<newline>'']
                       else [])
                    @ [NotifyCall, GoSignalWaiter, MakeRawCall,
                       Stderr (''Failed to get raw terminal: '' @ err), Stderr ''\<newline>'', OsExit 1],
            status = Some 1\<rparr>"
  using assms
  by (simp add: main_def interactive_def terminalInit_eq init_def emit_def Let_def)

theorem raw_mode_failure_witness:
  "trace (main noTtyEnv [] [Line ''show''] (init Cooked)) =
     [Stdout ''\<newline>Seesaw CLI - Engine version 2\<newline>\<newline>'', NotifyCall, GoSignalWaiter, MakeRawCall,
      Stderr ''Failed to get raw terminal: inappropriate ioctl for device'', Stderr ''\<newline>'',
      OsExit 1]"
proof -
  have a: "NewSeesawIPC noTtyEnv = None" "Dial noTtyEnv = None"
    "ClusterStatus noTtyEnv = Inr \<lparr>Version = 2, Site = ''lab''\<rparr>"
    "CurrentUser noTtyEnv = Inr \<lparr>Username = ''op''\<rparr>"
    "HAStatus noTtyEnv = Inr \<lparr>State = HAMaster\<rparr>"
    "MakeRaw noTtyEnv Cooked = Inl ''inappropriate ioctl for device''"
    by (simp_all add: noTtyEnv_def demoEnv_def failMakeRaw_def)
  show ?thesis
    using raw_mode_failure [OF a, of "[Line ''show'']"] by (simp add: showInt_2)
qed

text \<open>
  Claim C9 as stated fails: when raw mode cannot be entered, output has been produced
  before the process aborts, namely the banner on standard output.
\<close>

theorem raw_mode_failure_counterexample:
  "stdout (trace (main noTtyEnv [] [] (init Cooked)))
     = [''\<newline>Seesaw CLI - Engine version 2\<newline>\<newline>'']
   \<and> status (main noTtyEnv [] [] (init Cooked)) = Some 1"
  by (simp add: main_def interactive_def terminalInit_eq init_def emit_def Let_def
        noTtyEnv_def demoEnv_def failMakeRaw_def showInt_2)

subsection \<open>The terminal configuration at the end of the process\<close>

text \<open>Keys other than the suspend key leave the saved configuration alone, and end the
  process only through exit.\<close>

lemma autoComplete_keeps:
  assumes "key \<noteq> 0x1a" and "key = 0x3f \<longrightarrow> 0 \<le> pos \<and> pos \<le> int (length line)"
    and "oldTermState s = Some c" and "status s = None"
  shows "(status (snd (autoComplete env line pos key s)) = None
          \<and> oldTermState (snd (autoComplete env line pos key s)) = Some c
          \<and> resumes (snd (autoComplete env line pos key s)) = resumes s
          \<and> tty (snd (autoComplete env line pos key s)) = tty s)
         \<or> (status (snd (autoComplete env line pos key s)) \<noteq> None
          \<and> tty (snd (autoComplete env line pos key s)) = c)"
  using assms
  by (auto simp add: autoComplete_def exit_eq Let_def termWrite_def emit_def writeSubcmds_trace
        split: prod.splits option.splits)

text \<open>The invariant of the read loop in an orderly run: a configuration is saved, it is the
  one of the start, and while a resume is pending the terminal has that configuration.\<close>

lemma readLoop_restores:
  assumes "orderly n ins"
    and "(status s = None \<and> resumes s = n \<and> n \<le> 1 \<and> oldTermState s = Some c
           \<and> (n = 1 \<longrightarrow> tty s = c))
         \<or> (status s \<noteq> None \<and> tty s = c)"
  shows "(status (snd (readLoop env ins s)) \<noteq> None \<longrightarrow> tty (snd (readLoop env ins s)) = c)
       \<and> (status (snd (readLoop env ins s)) = None \<longrightarrow>
            oldTermState (snd (readLoop env ins s)) = Some c)"
  using assms
proof (induction ins arbitrary: n s)
  case Nil
  then show ?case by auto
next
  case (Cons i ins)
  show ?case
  proof (cases "status s \<noteq> None")
    case True
    then show ?thesis using Cons.prems by auto
  next
    case False
    then have st: "status s = None" by simp
    with Cons.prems have inv: "resumes s = n" "n \<le> 1" "oldTermState s = Some c" "n = 1 \<longrightarrow> tty s = c"
      by auto
    show ?thesis
    proof (cases i)
      case (Key line pos key)
      show ?thesis
      proof (cases "key = 0x1a")
        case True
        then have o: "n = 0" "orderly 1 ins" using Cons.prems(1) Key by auto
        have "snd (autoComplete env line pos key s) = suspend s"
          using True by (simp add: autoComplete_def)
        moreover have "status (suspend s) = None \<and> resumes (suspend s) = 1 \<and> (1::nat) \<le> 1
                       \<and> oldTermState (suspend s) = Some c \<and> ((1::nat) = 1 \<longrightarrow> tty (suspend s) = c)"
          using st inv o by (simp add: suspend_eq)
        ultimately show ?thesis
          using Cons.IH [OF o(2), of "suspend s"] st Key by simp
      next
        case False
        then have o: "key = 0x3f \<longrightarrow> 0 \<le> pos \<and> pos \<le> int (length line)" "orderly n ins"
          using Cons.prems(1) Key by auto
        let ?s = "snd (autoComplete env line pos key s)"
        have "(status ?s = None \<and> resumes ?s = n \<and> n \<le> 1 \<and> oldTermState ?s = Some c
                 \<and> (n = 1 \<longrightarrow> tty ?s = c))
              \<or> (status ?s \<noteq> None \<and> tty ?s = c)"
          using autoComplete_keeps [OF False o(1) inv(3) st, of env] inv by auto
        then show ?thesis
          using Cons.IH [OF o(2), of ?s] st Key by simp
      qed
    next
      case (Line l)
      then have o: "orderly n ins" using Cons.prems(1) by simp
      have keep: "(status (snd (readLoop env ins s')) \<noteq> None \<longrightarrow> tty (snd (readLoop env ins s')) = c)
                \<and> (status (snd (readLoop env ins s')) = None \<longrightarrow>
                     oldTermState (snd (readLoop env ins s')) = Some c)"
        if "s' = s\<lparr>trace := t\<rparr>" for s' t
        using Cons.IH [OF o, of s'] st inv that by simp
      show ?thesis
      proof (cases "TrimSpace l = []")
        case True
        then show ?thesis
          using keep [of "emit ReadLineCall s"] st Line by (simp add: emit_def)
      next
        case False
        show ?thesis
        proof (cases "Execute env (TrimSpace l)")
          case ExecOk
          then show ?thesis
            using keep [of "emit ReadLineCall (emit (ExecuteCall (TrimSpace l)) s)"] st Line False
            by (simp add: emit_def Let_def)
        next
          case (ExecError e)
          then show ?thesis
            using keep [of "emit ReadLineCall (emit (Stdout (e @ ''\<newline>''))
                              (emit (ExecuteCall (TrimSpace l)) s))"] st Line False
            by (simp add: emit_def Let_def)
        next
          case ExecExit
          then show ?thesis
            using st Line False inv by (simp add: Let_def exit_eq emit_def)
        qed
      qed
    next
      case EOF
      then show ?thesis using st inv by simp
    next
      case (Signal sg)
      then show ?thesis using st inv by (simp add: exit_eq)
    next
      case Wake
      then have o: "orderly (n - 1) ins" using Cons.prems(1) by simp
      show ?thesis
      proof (cases "resumes s = 0")
        case True
        then show ?thesis
          using Cons.IH [OF o, of s] st inv Wake by simp
      next
        case False
        then have n: "n = 1" using inv by simp
        let ?s = "resume env (s\<lparr>resumes := resumes s - 1\<rparr>)"
        have "(status ?s = None \<and> resumes ?s = n - 1 \<and> n - 1 \<le> 1 \<and> oldTermState ?s = Some c
                 \<and> (n - 1 = 1 \<longrightarrow> tty ?s = c))
              \<or> (status ?s \<noteq> None \<and> tty ?s = c)"
          using st inv n
          by (cases "MakeRaw env c") (simp_all add: resume_def terminalInit_eq emit_def)
        then show ?thesis
          using Cons.IH [OF o, of ?s] st Wake False by simp
      qed
    qed
  qed
qed

lemma readLoop_returned: "fst (readLoop env ins s) \<Longrightarrow> status (snd (readLoop env ins s)) = None"
proof (induction ins arbitrary: s)
  case Nil
  then show ?case by simp
next
  case (Cons i ins)
  then show ?case
    by (cases i; cases "status s = None")
       (auto simp add: Let_def split: if_splits exec_result.splits)
qed

text \<open>
  In an orderly run (no suspend key while a resume goroutine is still asleep, and the
  cursor handed to the help key within the line), whenever the process has ended the
  terminal has the configuration it had when main started. This covers the end of input,
  the quit command, the interrupt key, the three signals and every call of fatalf.
\<close>

theorem orderly_run_restores:
  assumes "orderly 0 ins" and "status (main env command ins (init c)) \<noteq> None"
  shows "tty (main env command ins (init c)) = c"
proof (cases "NewSeesawIPC env = None \<and> Dial env = None \<and> command = []
              \<and> (\<exists>st u ha. ClusterStatus env = Inr st \<and> CurrentUser env = Inr u \<and> HAStatus env = Inr ha)")
  case False
  then show ?thesis
    by (auto simp add: main_def interactive_def fatalf_eq exit_eq emit_def init_def Let_def
          split: option.splits exec_result.splits sum.splits)
next
  case True
  then obtain st u ha where ok: "NewSeesawIPC env = None" "Dial env = None" "command = []"
    "ClusterStatus env = Inr st" "CurrentUser env = Inr u" "HAStatus env = Inr ha"
    by blast
  define s4 :: "'a state" where
    "s4 = (init c)\<lparr>prompt := Username u @ ''@'' @ Site st @ ''> '',
                   trace := [Stdout (''\<newline>Seesaw CLI - Engine version '' @ showInt (Version st)
                                       @ ''\<newline>\<newline>'')]
                            @ (if State ha \<noteq> HAMaster
                               then [Stdout ''WARNING: This seesaw is not currently the master.\<newline>'']
                               else [])
                            @ [NotifyCall, GoSignalWaiter]\<rparr>"
  define s5 where "s5 = terminalInit env s4"
  have run: "interactive env ins (init c)
               = (if status s5 \<noteq> None then (False, s5) else readLoop env ins (emit ReadLineCall s5))"
    using ok by (auto simp add: interactive_def Let_def s4_def s5_def emit_def init_def)
  show ?thesis
  proof (cases "MakeRaw env c")
    case (Inl err)
    then have "status s5 = Some 1" "tty s5 = c"
      by (simp_all add: s5_def s4_def terminalInit_eq init_def)
    then show ?thesis using run ok by (simp add: main_def)
  next
    case (Inr raw)
    then have s5: "status s5 = None" "oldTermState s5 = Some c" "resumes s5 = 0"
      by (simp_all add: s5_def s4_def terminalInit_eq init_def)
    let ?s = "emit ReadLineCall s5"
    have "(status ?s = None \<and> resumes ?s = 0 \<and> (0::nat) \<le> 1 \<and> oldTermState ?s = Some c
             \<and> ((0::nat) = 1 \<longrightarrow> tty ?s = c))
          \<or> (status ?s \<noteq> None \<and> tty ?s = c)"
      using s5 by (simp add: emit_def)
    from readLoop_restores [OF assms(1) this, of env]
    have r: "status (snd (readLoop env ins ?s)) \<noteq> None \<longrightarrow> tty (snd (readLoop env ins ?s)) = c"
      "status (snd (readLoop env ins ?s)) = None \<longrightarrow> oldTermState (snd (readLoop env ins ?s)) = Some c"
      by simp_all
    obtain b s' where l: "readLoop env ins ?s = (b, s')" by (cases "readLoop env ins ?s")
    have m: "main env command ins (init c) = (if b then exit s' else s')"
      using ok run s5 l by (simp add: main_def)
    show ?thesis
    proof (cases b)
      case True
      then have "status s' = None"
        using readLoop_returned [of env ins ?s] l by simp
      then show ?thesis
        using True m r l by (simp add: exit_eq)
    next
      case False
      then show ?thesis using m r l assms(2) by simp
    qed
  qed
qed

theorem orderly_run_restores_witness:
  "orderly 0 [Key [] 0 0x1a, Wake, Signal SIGINT]
   \<and> status (main demoEnv [] [Key [] 0 0x1a, Wake, Signal SIGINT] (init Cooked)) = Some 0
   \<and> tty (main demoEnv [] [Key [] 0 0x1a, Wake, Signal SIGINT] (init Cooked)) = Cooked"
proof -
  have o: "orderly 0 [Key [] 0 0x1a, Wake, Signal SIGINT]" by simp
  have s: "status (main demoEnv [] [Key [] 0 0x1a, Wake, Signal SIGINT] (init Cooked)) = Some 0"
    by (simp add: main_def interactive_def terminalInit_eq init_def emit_def Let_def
          demoEnv_def demoMakeRaw_def showInt_2 autoComplete_def suspend_eq resume_def exit_eq)
  then have "status (main demoEnv [] [Key [] 0 0x1a, Wake, Signal SIGINT] (init Cooked)) \<noteq> None"
    by simp
  from orderly_run_restores [OF o this] o s show ?thesis by simp
qed

text \<open>
  Claim C1 at a run that is not orderly. The suspend key is handled twice before the first
  resume goroutine wakes; both goroutines then call terminalInit, and the second
  terminal.MakeRaw finds the terminal already raw and stores the raw configuration in
  oldTermState. The signal handler's exit restores that one: the process ends with status
  0 and the terminal is left raw. With a single suspend the same run ends with the
  terminal as it was at the start.
\<close>

theorem double_suspend_leaves_raw:
  "tty (main demoEnv [] [Key [] 0 0x1a, Key [] 0 0x1a, Wake, Wake, Signal SIGINT] (init Cooked)) = Raw
   \<and> status (main demoEnv [] [Key [] 0 0x1a, Key [] 0 0x1a, Wake, Wake, Signal SIGINT] (init Cooked)) = Some 0
   \<and> tty (main demoEnv [] [Key [] 0 0x1a, Wake, Signal SIGINT] (init Cooked)) = Cooked"
  by (simp add: main_def interactive_def terminalInit_eq init_def emit_def Let_def
        demoEnv_def demoMakeRaw_def showInt_2 autoComplete_def suspend_eq resume_def exit_eq)

end
